theory Spec2Isabelle
  imports Main "HOL-Library.Word"
begin

unbundle bit_operations_syntax

section \<open>The register file of the STM32F030 as main.c sees it\<close>

text \<open>
  main.c is bare-metal C: every statement of the program reads or writes a memory-mapped
  peripheral register through the CMSIS structure pointers (\<open>GPIOA->ODR\<close>,
  \<open>EXTI->PR\<close>, ...). Each register the file touches is a constructor of \<open>reg\<close>; the
  register file is a store from registers to 32-bit words (all the CMSIS fields used here
  are declared \<open>uint32_t\<close>). \<open>NVIC_IP n\<close> and \<open>SCB_SHP n\<close> are the entries of the arrays
  \<open>NVIC->IP[n]\<close> and \<open>SCB->SHP[n]\<close> that the CMSIS priority functions index.
\<close>

datatype reg =
    RCC_AHBENR | RCC_APB1ENR | RCC_APB2ENR
  | GPIOA_MODER | GPIOA_PUPDR | GPIOA_IDR | GPIOA_ODR
  | EXTI_IMR | EXTI_RTSR | EXTI_PR
  | TIM14_CR1 | TIM14_DIER | TIM14_SR | TIM14_PSC | TIM14_ARR
  | PWR_CR | PWR_CSR
  | SCB_SCR | SCB_SHP nat
  | NVIC_ISER | NVIC_IP nat
  | SysTick_CTRL | SysTick_LOAD | SysTick_VAL

text \<open>
  The accesses to the registers are volatile, so their order is what the program does
  as seen from outside. The model records it: a trace of register reads and writes, of
  the busy-wait loops (with the number of iterations they ran) and of the \<open>__WFI()\<close>
  instruction.
\<close>

datatype event =
    Rd reg "32 word"
  | Wr reg "32 word"
  | Spin nat
  | WFI

text \<open>
  \<open>pins\<close> is the environment of the input data register: the levels of port A that the
  next reads of \<open>GPIOA->IDR\<close> will sample, in order. When the list is used up the pins
  keep their last level (the value held in \<open>regs s GPIOA_IDR\<close>).
\<close>

record mcu =
  regs :: "reg \<Rightarrow> 32 word"
  pins :: "32 word list"
  trace :: "event list"

subsection \<open>Bit masks and positions of the device header\<close>

text \<open>
  Modelled from the spec: the device header \<open>stm32f030x6.h\<close> that main.c includes is
  missing from the sources, and with it the bit masks, bit positions and interrupt numbers
  the program names. The spec leaves the register layout of the chip out of its scope, so
  the constants carry the values ST's header for the STM32F030x6 gives them. main.c fixes
  the roles of the ones the properties below depend on: \<open>PR0\<close>, \<open>PR1\<close>, \<open>PR2\<close> are the
  pending bits of lines 0, 1, 2 (lines 139-145); \<open>GPIO_IDR_n\<close> and \<open>GPIO_ODR_n\<close> are pin
  \<open>n\<close> of port A (lines 24-27, 282, 288).
\<close>

definition EXTI_PR_PR0 :: "32 word" where "EXTI_PR_PR0 = 0x1"
definition EXTI_PR_PR1 :: "32 word" where "EXTI_PR_PR1 = 0x2"
definition EXTI_PR_PR2 :: "32 word" where "EXTI_PR_PR2 = 0x4"
definition EXTI_IMR_MR0 :: "32 word" where "EXTI_IMR_MR0 = 0x1"
definition EXTI_IMR_MR1 :: "32 word" where "EXTI_IMR_MR1 = 0x2"
definition EXTI_IMR_MR2 :: "32 word" where "EXTI_IMR_MR2 = 0x4"
definition EXTI_RTSR_TR0 :: "32 word" where "EXTI_RTSR_TR0 = 0x1"
definition EXTI_RTSR_TR1 :: "32 word" where "EXTI_RTSR_TR1 = 0x2"
definition EXTI_RTSR_TR2 :: "32 word" where "EXTI_RTSR_TR2 = 0x4"
definition GPIO_IDR_0 :: "32 word" where "GPIO_IDR_0 = 0x1"
definition GPIO_IDR_1 :: "32 word" where "GPIO_IDR_1 = 0x2"
definition GPIO_IDR_2 :: "32 word" where "GPIO_IDR_2 = 0x4"
definition GPIO_ODR_3 :: "32 word" where "GPIO_ODR_3 = 0x8"
definition GPIO_ODR_4 :: "32 word" where "GPIO_ODR_4 = 0x10"
definition GPIO_ODR_5 :: "32 word" where "GPIO_ODR_5 = 0x20"
definition GPIO_PUPDR_PUPDR0_Pos :: nat where "GPIO_PUPDR_PUPDR0_Pos = 0"
definition GPIO_PUPDR_PUPDR1_Pos :: nat where "GPIO_PUPDR_PUPDR1_Pos = 2"
definition GPIO_PUPDR_PUPDR2_Pos :: nat where "GPIO_PUPDR_PUPDR2_Pos = 4"
definition GPIO_MODER_MODER3_Pos :: nat where "GPIO_MODER_MODER3_Pos = 6"
definition GPIO_MODER_MODER4_Pos :: nat where "GPIO_MODER_MODER4_Pos = 8"
definition GPIO_MODER_MODER5_Pos :: nat where "GPIO_MODER_MODER5_Pos = 10"
definition RCC_AHBENR_GPIOAEN :: "32 word" where "RCC_AHBENR_GPIOAEN = 0x20000"
definition RCC_APB1ENR_TIM14EN :: "32 word" where "RCC_APB1ENR_TIM14EN = 0x100"
definition RCC_APB1ENR_PWREN :: "32 word" where "RCC_APB1ENR_PWREN = 0x10000000"
definition RCC_APB2ENR_SYSCFGEN :: "32 word" where "RCC_APB2ENR_SYSCFGEN = 0x1"
definition TIM_CR1_CEN :: "32 word" where "TIM_CR1_CEN = 0x1"
definition TIM_DIER_UIE :: "32 word" where "TIM_DIER_UIE = 0x1"
definition TIM_SR_UIF :: "32 word" where "TIM_SR_UIF = 0x1"
definition PWR_CR_LPDS :: "32 word" where "PWR_CR_LPDS = 0x1"
definition PWR_CR_PDDS :: "32 word" where "PWR_CR_PDDS = 0x2"
definition PWR_CR_CWUF :: "32 word" where "PWR_CR_CWUF = 0x4"
definition PWR_CSR_EWUP1 :: "32 word" where "PWR_CSR_EWUP1 = 0x100"
definition SCB_SCR_SLEEPDEEP_Msk :: "32 word" where "SCB_SCR_SLEEPDEEP_Msk = 0x4"
definition SysTick_LOAD_RELOAD_Msk :: "32 word" where "SysTick_LOAD_RELOAD_Msk = 0xFFFFFF"
definition SysTick_CTRL_ENABLE_Msk :: "32 word" where "SysTick_CTRL_ENABLE_Msk = 0x1"
definition SysTick_CTRL_TICKINT_Msk :: "32 word" where "SysTick_CTRL_TICKINT_Msk = 0x2"
definition SysTick_CTRL_CLKSOURCE_Msk :: "32 word" where "SysTick_CTRL_CLKSOURCE_Msk = 0x4"
definition NVIC_PRIO_BITS :: nat where "NVIC_PRIO_BITS = 2"

text \<open>The three indicator outputs the button handlers write together (main.c 180, 189, 212).\<close>

definition LEDS :: "32 word" where
  "LEDS = GPIO_ODR_3 OR GPIO_ODR_4 OR GPIO_ODR_5"

text \<open>The interrupt numbers the file names (\<open>IRQn_Type\<close> of the device header).\<close>

datatype IRQn = SysTick_IRQn | EXTI0_1_IRQn | EXTI2_3_IRQn | TIM14_IRQn

fun irq_number :: "IRQn \<Rightarrow> int" where
  "irq_number SysTick_IRQn = -1"
| "irq_number EXTI0_1_IRQn = 5"
| "irq_number EXTI2_3_IRQn = 6"
| "irq_number TIM14_IRQn = 19"

subsection \<open>Volatile reads and writes\<close>

text \<open>
  A read returns the register's value and logs it. A read of \<open>GPIOA->IDR\<close> first samples
  the pins.
\<close>

definition rd :: "reg \<Rightarrow> mcu \<Rightarrow> 32 word \<times> mcu" where
  "rd r s =
     (if r = GPIOA_IDR then
        (case pins s of
           [] \<Rightarrow> (regs s GPIOA_IDR, s\<lparr>trace := trace s @ [Rd GPIOA_IDR (regs s GPIOA_IDR)]\<rparr>)
         | p # ps \<Rightarrow>
             (p, s\<lparr>regs := (regs s)(GPIOA_IDR := p), pins := ps,
                   trace := trace s @ [Rd GPIOA_IDR p]\<rparr>))
      else (regs s r, s\<lparr>trace := trace s @ [Rd r (regs s r)]\<rparr>))"

text \<open>
  A write stores the value, with the exceptions the program relies on:
  \<^item> \<open>EXTI->PR\<close> is cleared by writing ones: main.c says so at each write (lines 171, 184,
    193, 216, "Clear the interrupt by *setting* the Pending Reg. bit"), so a written 1
    clears the bit and a written 0 leaves it;
  \<^item> \<open>NVIC->ISER[0]\<close> is set by writing ones (\<open>NVIC_EnableIRQ\<close> writes a single bit and
    relies on it);
  \<^item> \<open>GPIOA->IDR\<close> is read-only.
\<close>

definition wr :: "reg \<Rightarrow> 32 word \<Rightarrow> mcu \<Rightarrow> mcu" where
  "wr r v s =
     s\<lparr>regs := (regs s)(r :=
           (if r = EXTI_PR then regs s EXTI_PR AND NOT v
            else if r = NVIC_ISER then regs s NVIC_ISER OR v
            else if r = GPIOA_IDR then regs s GPIOA_IDR
            else v)),
       trace := trace s @ [Wr r v]\<rparr>"

text \<open>The compound assignments of C: \<open>r |= m\<close>, \<open>r &= ~m\<close>, \<open>r ^= m\<close>.\<close>

definition set_bits :: "reg \<Rightarrow> 32 word \<Rightarrow> mcu \<Rightarrow> mcu" where
  "set_bits r m s = (case rd r s of (v, s1) \<Rightarrow> wr r (v OR m) s1)"

definition clear_bits :: "reg \<Rightarrow> 32 word \<Rightarrow> mcu \<Rightarrow> mcu" where
  "clear_bits r m s = (case rd r s of (v, s1) \<Rightarrow> wr r (v AND NOT m) s1)"

definition toggle_bits :: "reg \<Rightarrow> 32 word \<Rightarrow> mcu \<Rightarrow> mcu" where
  "toggle_bits r m s = (case rd r s of (v, s1) \<Rightarrow> wr r (v XOR m) s1)"

subsection \<open>Busy-wait loops\<close>

text \<open>
  \<open>for( uint32_t x = 0; x < n; x++ );\<close> has an empty body: all it does is run for
  \<open>for_delay 0 n\<close> iterations. \<open>for_delay x n\<close> counts the iterations from counter \<open>x\<close>.
\<close>

function for_delay :: "32 word \<Rightarrow> 32 word \<Rightarrow> nat" where
  "for_delay x n = (if x < n then Suc (for_delay (x + 1) n) else 0)"
  by pat_completeness auto
termination
proof (relation "measure (\<lambda>(x, n). unat n - unat x)")
  show "wf (measure (\<lambda>(x, n). unat n - unat x))" by simp
next
  fix x n :: "32 word"
  assume "x < n"
  then have "unat n - unat (x + 1) < unat n - unat x"
    by unat_arith
  then show "((x + 1, n), (x, n)) \<in> measure (\<lambda>(x, n). unat n - unat x)"
    by simp
qed

declare for_delay.simps [simp del]

definition spin :: "32 word \<Rightarrow> mcu \<Rightarrow> mcu" where
  "spin n s = s\<lparr>trace := trace s @ [Spin (for_delay 0 n)]\<rparr>"

text \<open>
  \<open>while( r & m ) ;\<close> and \<open>while( !(r & m) ) ;\<close>: every test reads the register again.
  Nothing in the loop ends it, so the loop may never return: that is the value \<open>None\<close>.
\<close>

partial_function (option) wait_while_set :: "reg \<Rightarrow> 32 word \<Rightarrow> mcu \<Rightarrow> mcu option" where
  "wait_while_set r m s =
     (case rd r s of (v, s1) \<Rightarrow> if v AND m \<noteq> 0 then wait_while_set r m s1 else Some s1)"

partial_function (option) wait_while_clear :: "reg \<Rightarrow> 32 word \<Rightarrow> mcu \<Rightarrow> mcu option" where
  "wait_while_clear r m s =
     (case rd r s of (v, s1) \<Rightarrow> if \<not> (v AND m \<noteq> 0) then wait_while_clear r m s1 else Some s1)"

section \<open>The interrupt handlers\<close>

text \<open>\<open>EXTI0_1_IRQHandler\<close> (main.c 175-196), compiled under \<open>__BUTTON_INTERRUPT\<close>.\<close>

definition EXTI0_1_IRQHandler :: "mcu \<Rightarrow> mcu option" where
  "EXTI0_1_IRQHandler s =
     (case rd EXTI_PR s of (pr, s0) \<Rightarrow>
        if pr AND EXTI_PR_PR0 \<noteq> 0 then
          Option.bind
            (wait_while_set GPIOA_ODR GPIO_IDR_0
               (spin 65000 (set_bits GPIOA_ODR LEDS s0)))
            (\<lambda>s3. Some (set_bits EXTI_PR EXTI_PR_PR0 (spin 2000000 s3)))
        else
          (case rd EXTI_PR s0 of (pr', s0') \<Rightarrow>
             if pr' AND EXTI_PR_PR1 \<noteq> 0 then
               Option.bind
                 (wait_while_set GPIOA_ODR GPIO_IDR_1
                    (spin 65000 (clear_bits GPIOA_ODR LEDS s0')))
                 (\<lambda>s3. Some (set_bits EXTI_PR EXTI_PR_PR1 (spin 2000000 s3)))
             else Some s0'))"

text \<open>
  \<open>EXTI2_3_IRQHandler\<close> (main.c 207-218), compiled under \<open>__BUTTON_INTERRUPT\<close>. The test of
  \<open>EXTI->PR\<close> is commented out in the source (line 210), so the body runs on every call.
\<close>

definition EXTI2_3_IRQHandler :: "mcu \<Rightarrow> mcu option" where
  "EXTI2_3_IRQHandler s =
     Option.bind
       (wait_while_clear GPIOA_IDR GPIO_IDR_2
          (spin 100000 (toggle_bits GPIOA_ODR LEDS s)))
       (\<lambda>s3. Some (set_bits EXTI_PR EXTI_PR_PR2 (spin 2000000 s3)))"

text \<open>\<open>TIM14_IRQHandler\<close> (main.c 233-247), compiled under \<open>__TIMER_INTERRUPT\<close>.\<close>

definition TIM14_IRQHandler :: "mcu \<Rightarrow> mcu" where
  "TIM14_IRQHandler s =
     (let s1 = set_bits GPIOA_ODR GPIO_ODR_4 s;
          s2 = spin 15000 s1;
          s3 = clear_bits GPIOA_ODR GPIO_ODR_4 s2;
          s4 = spin 2000000 s3;
          s5 = set_bits GPIOA_ODR GPIO_ODR_4 s4;
          s6 = spin 15000 s5;
          s7 = clear_bits GPIOA_ODR GPIO_ODR_4 s6
      in clear_bits TIM14_SR TIM_SR_UIF s7)"

text \<open>\<open>SysTick_Handler\<close> (main.c 261-265), compiled under \<open>__SYSTICK_INTERRUPT\<close>.\<close>

definition SysTick_Handler :: "mcu \<Rightarrow> mcu" where
  "SysTick_Handler s = toggle_bits GPIOA_ODR GPIO_ODR_5 s"

section \<open>main\<close>

text \<open>
  The sleep mode and the interrupt sources are chosen by \<open>#define\<close>s at the top of the file
  (main.c 126-128 and 158-160); every block of \<open>main\<close> and every handler is guarded by
  \<open>#ifdef\<close>. A field is \<open>True\<close> when its macro is defined. The file as committed defines
  \<open>__SLEEP_MODE\<close> and \<open>__TIMER_INTERRUPT\<close>.
\<close>

record config =
  STANDBY_MODE :: bool
  STOP_MODE :: bool
  SLEEP_MODE :: bool
  BUTTON_INTERRUPT :: bool
  TIMER_INTERRUPT :: bool
  SYSTICK_INTERRUPT :: bool

definition committed_config :: config where
  "committed_config =
     \<lparr>STANDBY_MODE = False, STOP_MODE = False, SLEEP_MODE = True,
      BUTTON_INTERRUPT = False, TIMER_INTERRUPT = True, SYSTICK_INTERRUPT = False\<rparr>"

subsection \<open>The CMSIS core functions main calls\<close>

text \<open>
  Modelled from the spec: \<open>NVIC_EnableIRQ\<close>, \<open>NVIC_SetPriority\<close>, \<open>NVIC_GetPriority\<close> and
  \<open>SysTick_Config\<close> are inline functions of the CMSIS core header \<open>core_cm0.h\<close>, missing
  from the sources. The spec says only that the router assigns relative priorities and
  configures a tick counter, so they are written as that header has them for the
  Cortex-M0 (two priority bits, one priority byte per request, four bytes to a register),
  with its macros \<open>_BIT_SHIFT\<close>, \<open>_IP_IDX\<close> and \<open>_SHP_IDX\<close>. \<open>NVIC_GetPriority\<close> is not
  called by main.c; it reads back what \<open>NVIC_SetPriority\<close> stored.
\<close>

definition irq_word :: "IRQn \<Rightarrow> 32 word" where
  "irq_word i = word_of_int (irq_number i)"

definition BIT_SHIFT :: "IRQn \<Rightarrow> nat" where
  "BIT_SHIFT i = unat ((irq_word i AND 0x03) * 8)"

definition IP_IDX :: "IRQn \<Rightarrow> nat" where
  "IP_IDX i = unat (drop_bit 2 (irq_word i))"

definition SHP_IDX :: "IRQn \<Rightarrow> nat" where
  "SHP_IDX i = unat (drop_bit 2 ((irq_word i AND 0x0F) - 8))"

definition priority_reg :: "IRQn \<Rightarrow> reg" where
  "priority_reg i = (if 0 \<le> irq_number i then NVIC_IP (IP_IDX i) else SCB_SHP (SHP_IDX i))"

definition NVIC_EnableIRQ :: "IRQn \<Rightarrow> mcu \<Rightarrow> mcu" where
  "NVIC_EnableIRQ i s =
     (if 0 \<le> irq_number i then wr NVIC_ISER (push_bit (unat (irq_word i AND 0x1F)) 1) s
      else s)"

definition NVIC_SetPriority :: "IRQn \<Rightarrow> 32 word \<Rightarrow> mcu \<Rightarrow> mcu" where
  "NVIC_SetPriority i priority s =
     (case rd (priority_reg i) s of (v, s1) \<Rightarrow>
        wr (priority_reg i)
          ((v AND NOT (push_bit (BIT_SHIFT i) 0xFF)) OR
           push_bit (BIT_SHIFT i) (push_bit (8 - NVIC_PRIO_BITS) priority AND 0xFF))
          s1)"

definition NVIC_GetPriority :: "mcu \<Rightarrow> IRQn \<Rightarrow> 32 word" where
  "NVIC_GetPriority s i =
     drop_bit (8 - NVIC_PRIO_BITS)
       (drop_bit (BIT_SHIFT i) (regs s (priority_reg i)) AND 0xFF)"

definition SysTick_Config :: "32 word \<Rightarrow> mcu \<Rightarrow> mcu" where
  "SysTick_Config ticks s =
     (if ticks - 1 > SysTick_LOAD_RELOAD_Msk then s
      else
        let s1 = wr SysTick_LOAD (ticks - 1) s;
            s2 = NVIC_SetPriority SysTick_IRQn (push_bit NVIC_PRIO_BITS 1 - 1) s1;
            s3 = wr SysTick_VAL 0 s2
        in wr SysTick_CTRL
             (SysTick_CTRL_CLKSOURCE_Msk OR SysTick_CTRL_TICKINT_Msk OR SysTick_CTRL_ENABLE_Msk)
             s3)"

subsection \<open>Initialisation\<close>

text \<open>The GPIO set-up, unconditional (main.c 283-291).\<close>

definition gpio_setup :: "mcu \<Rightarrow> mcu" where
  "gpio_setup s =
     (let s1 = set_bits RCC_AHBENR RCC_AHBENR_GPIOAEN s;
          s2 = set_bits GPIOA_PUPDR
                 (push_bit GPIO_PUPDR_PUPDR0_Pos 1 OR push_bit GPIO_PUPDR_PUPDR1_Pos 1 OR
                  push_bit GPIO_PUPDR_PUPDR2_Pos 1) s1
      in set_bits GPIOA_MODER
           (push_bit GPIO_MODER_MODER3_Pos 1 OR push_bit GPIO_MODER_MODER4_Pos 1 OR
            push_bit GPIO_MODER_MODER5_Pos 1) s2)"

text \<open>The block under \<open>__BUTTON_INTERRUPT\<close> (main.c 320-334).\<close>

definition button_setup :: "mcu \<Rightarrow> mcu" where
  "button_setup s =
     (let s1 = set_bits RCC_APB2ENR RCC_APB2ENR_SYSCFGEN s;
          s2 = set_bits EXTI_IMR (EXTI_IMR_MR0 OR EXTI_IMR_MR1 OR EXTI_IMR_MR2) s1;
          s3 = set_bits EXTI_RTSR (EXTI_RTSR_TR0 OR EXTI_RTSR_TR1 OR EXTI_RTSR_TR2) s2;
          s4 = NVIC_EnableIRQ EXTI0_1_IRQn s3;
          s5 = NVIC_SetPriority EXTI0_1_IRQn 1 s4;
          s6 = NVIC_EnableIRQ EXTI2_3_IRQn s5
      in NVIC_SetPriority EXTI2_3_IRQn 0 s6)"

text \<open>The block under \<open>__TIMER_INTERRUPT\<close> (main.c 352-361).\<close>

definition timer_setup :: "mcu \<Rightarrow> mcu" where
  "timer_setup s =
     (let s1 = set_bits RCC_APB1ENR RCC_APB1ENR_TIM14EN s;
          s2 = set_bits RCC_APB2ENR RCC_APB2ENR_SYSCFGEN s1;
          s3 = wr TIM14_PSC (8000 - 1) s2;
          s4 = wr TIM14_ARR (10000 - 1) s3;
          s5 = set_bits TIM14_CR1 TIM_CR1_CEN s4;
          s6 = set_bits TIM14_DIER TIM_DIER_UIE s5;
          s7 = NVIC_EnableIRQ TIM14_IRQn s6
      in NVIC_SetPriority TIM14_IRQn 1 s7)"

text \<open>The block under \<open>__SYSTICK_INTERRUPT\<close> (main.c 374-376).\<close>

definition systick_setup :: "mcu \<Rightarrow> mcu" where
  "systick_setup s = NVIC_SetPriority SysTick_IRQn 0 (SysTick_Config 16000000 s)"

text \<open>The blocks under \<open>__STANDBY_MODE\<close>, \<open>__STOP_MODE\<close> and \<open>__SLEEP_MODE\<close> (main.c 391-415).\<close>

definition standby_setup :: "mcu \<Rightarrow> mcu" where
  "standby_setup s =
     (let s1 = set_bits RCC_APB1ENR RCC_APB1ENR_PWREN s;
          s2 = set_bits SCB_SCR SCB_SCR_SLEEPDEEP_Msk s1;
          s3 = set_bits PWR_CR (PWR_CR_PDDS OR PWR_CR_LPDS) s2
      in set_bits PWR_CSR PWR_CSR_EWUP1 s3)"

definition stop_setup :: "mcu \<Rightarrow> mcu" where
  "stop_setup s =
     (let s1 = set_bits RCC_APB1ENR RCC_APB1ENR_PWREN s;
          s2 = set_bits SCB_SCR SCB_SCR_SLEEPDEEP_Msk s1
      in set_bits PWR_CR PWR_CR_LPDS s2)"

definition sleep_setup :: "mcu \<Rightarrow> mcu" where
  "sleep_setup s = set_bits RCC_APB1ENR RCC_APB1ENR_PWREN s"

definition main_init :: "config \<Rightarrow> mcu \<Rightarrow> mcu" where
  "main_init cfg s =
     (let s1 = gpio_setup s;
          s2 = (if BUTTON_INTERRUPT cfg then button_setup s1 else s1);
          s3 = (if TIMER_INTERRUPT cfg then timer_setup s2 else s2);
          s4 = (if SYSTICK_INTERRUPT cfg then systick_setup s3 else s3);
          s5 = (if STANDBY_MODE cfg then standby_setup s4 else s4);
          s6 = (if STOP_MODE cfg then stop_setup s5 else s5)
      in if SLEEP_MODE cfg then sleep_setup s6 else s6)"

subsection \<open>The cyclic sleep loop\<close>

text \<open>
  The body of \<open>while( 1 )\<close> (main.c 421-426), up to and including the \<open>__WFI()\<close> that puts
  the core to sleep. The body is outside every \<open>#ifdef\<close>.
\<close>

definition wfi :: "mcu \<Rightarrow> mcu" where
  "wfi s = s\<lparr>trace := trace s @ [WFI]\<rparr>"

definition sleep_cycle :: "mcu \<Rightarrow> mcu" where
  "sleep_cycle s =
     (let s1 = set_bits PWR_CR PWR_CR_CWUF s;
          s2 = clear_bits TIM14_SR TIM_SR_UIF s1
      in wfi s2)"

text \<open>
  A wake-up is an interrupt request together with the flags the hardware has latched for
  it when the handler is entered: bits of \<open>EXTI->PR\<close> for the two EXTI requests, bits of
  \<open>TIM14->SR\<close> for the timer, nothing for SysTick.
\<close>

fun latch :: "IRQn \<Rightarrow> 32 word \<Rightarrow> mcu \<Rightarrow> mcu" where
  "latch EXTI0_1_IRQn f s = s\<lparr>regs := (regs s)(EXTI_PR := regs s EXTI_PR OR f)\<rparr>"
| "latch EXTI2_3_IRQn f s = s\<lparr>regs := (regs s)(EXTI_PR := regs s EXTI_PR OR f)\<rparr>"
| "latch TIM14_IRQn f s = s\<lparr>regs := (regs s)(TIM14_SR := regs s TIM14_SR OR f)\<rparr>"
| "latch SysTick_IRQn f s = s"

text \<open>
  The vector table: a request runs the handler of its name when the handler is compiled
  in. The file defines a handler exactly under the macro that also enables its request,
  so a request without a handler has no successor state here.
\<close>

fun dispatch :: "config \<Rightarrow> IRQn \<Rightarrow> mcu \<Rightarrow> mcu option" where
  "dispatch cfg EXTI0_1_IRQn s = (if BUTTON_INTERRUPT cfg then EXTI0_1_IRQHandler s else None)"
| "dispatch cfg EXTI2_3_IRQn s = (if BUTTON_INTERRUPT cfg then EXTI2_3_IRQHandler s else None)"
| "dispatch cfg TIM14_IRQn s = (if TIMER_INTERRUPT cfg then Some (TIM14_IRQHandler s) else None)"
| "dispatch cfg SysTick_IRQn s = (if SYSTICK_INTERRUPT cfg then Some (SysTick_Handler s) else None)"

text \<open>
  \<open>main_loop cfg ws s\<close> runs the loop against the wake-ups \<open>ws\<close>: the body executes and the
  core sleeps in \<open>__WFI()\<close>; the next wake-up runs its handler, and when the handler
  returns the loop goes round again. With no wake-up left the core stays asleep, and the
  result is the state it sleeps in. \<open>None\<close>: a handler never returned.
\<close>

fun main_loop :: "config \<Rightarrow> (IRQn \<times> 32 word) list \<Rightarrow> mcu \<Rightarrow> mcu option" where
  "main_loop cfg [] s = Some (sleep_cycle s)"
| "main_loop cfg ((i, f) # ws) s =
     Option.bind (dispatch cfg i (latch i f (sleep_cycle s))) (main_loop cfg ws)"

definition main :: "config \<Rightarrow> (IRQn \<times> 32 word) list \<Rightarrow> mcu \<Rightarrow> mcu option" where
  "main cfg ws s = main_loop cfg ws (main_init cfg s)"

section \<open>Observations on traces\<close>

text \<open>
  What an indicator on output bit \<open>m\<close> shows during a trace: it is switched by every write
  to \<open>GPIOA->ODR\<close> and holds its level through every busy-wait.
\<close>

datatype led = On | Off | Pause nat

fun observe :: "32 word \<Rightarrow> event \<Rightarrow> led option" where
  "observe m (Wr r v) = (if r = GPIOA_ODR then Some (if v AND m \<noteq> 0 then On else Off) else None)"
| "observe m (Spin n) = Some (Pause n)"
| "observe m (Rd r v) = None"
| "observe m WFI = None"

definition led_view :: "32 word \<Rightarrow> event list \<Rightarrow> led list" where
  "led_view m t = List.map_filter (observe m) t"

text \<open>The events a step added to the trace of the state it started from.\<close>

definition new_events :: "mcu \<Rightarrow> mcu \<Rightarrow> event list" where
  "new_events s s' = drop (length (trace s)) (trace s')"

text \<open>A state with every register reading 0, no pin samples queued and an empty trace.\<close>

definition zero_mcu :: mcu where
  "zero_mcu = \<lparr>regs = (\<lambda>r. 0), pins = [], trace = []\<rparr>"

text \<open>
  The operation that follows the first write to \<open>PWR->CR\<close> with \<open>CWUF\<close> set (\<open>None\<close> when
  there is no such write, or nothing after it).
\<close>

fun after_wake_clear :: "event list \<Rightarrow> event option" where
  "after_wake_clear [] = None"
| "after_wake_clear (Wr r v # es) =
     (if r = PWR_CR \<and> v AND PWR_CR_CWUF \<noteq> 0
      then (case es of [] \<Rightarrow> None | e # _ \<Rightarrow> Some e)
      else after_wake_clear es)"
| "after_wake_clear (Rd r v # es) = after_wake_clear es"
| "after_wake_clear (Spin n # es) = after_wake_clear es"
| "after_wake_clear (WFI # es) = after_wake_clear es"

text \<open>The number of times the core has executed \<open>__WFI()\<close>.\<close>

definition count_wfi :: "event list \<Rightarrow> nat" where
  "count_wfi t = length (filter (\<lambda>e. e = WFI) t)"

text \<open>
  The timer's period in cycles of its input clock: the prescaler divides the clock by
  \<open>PSC + 1\<close> and the counter overflows every \<open>ARR + 1\<close> counts (main.c 350-356: "x8000 for
  1 ms clock", "10,000 ms (10 s)"). The clock is the 8 MHz internal oscillator (main.c 154,
  258).
\<close>

definition TIM14_period_cycles :: "mcu \<Rightarrow> nat" where
  "TIM14_period_cycles s = (unat (regs s TIM14_PSC) + 1) * (unat (regs s TIM14_ARR) + 1)"

definition HSI_HZ :: nat where
  "HSI_HZ = 8000000"

text \<open>
  The NVIC's rule, as main.c states it (lines 307-310, 331, 334: "0 = highest"): a request
  interrupts a running handler when its priority number is strictly lower.
\<close>

definition preempts :: "mcu \<Rightarrow> IRQn \<Rightarrow> IRQn \<Rightarrow> bool" where
  "preempts s i running \<longleftrightarrow> NVIC_GetPriority s i < NVIC_GetPriority s running"

text \<open>The configuration of the button scenarios: \<open>__BUTTON_INTERRUPT\<close> with \<open>__SLEEP_MODE\<close>.\<close>

definition button_sleep_config :: config where
  "button_sleep_config =
     \<lparr>STANDBY_MODE = False, STOP_MODE = False, SLEEP_MODE = True,
      BUTTON_INTERRUPT = True, TIMER_INTERRUPT = False, SYSTICK_INTERRUPT = False\<rparr>"




section \<open>Basic facts about the register operations\<close>

lemma for_delay_eq: "for_delay x n = unat n - unat x"
proof (induction x n rule: for_delay.induct)
  case (1 x n)
  show ?case
  proof (cases "x < n")
    case True
    then have "unat n - unat x = Suc (unat n - unat (x + 1))"
      by unat_arith
    with 1 True show ?thesis
      by (subst for_delay.simps) simp
  next
    case False
    then have "unat n - unat x = 0"
      by unat_arith
    with False show ?thesis
      by (subst for_delay.simps) simp
  qed
qed

lemma word_or_and_not: "(v OR m) AND NOT m = v AND NOT m" for v m :: "32 word"
  by (rule bit_eqI) (auto simp: bit_simps)

lemma word_and_not_or: "(v AND NOT m) OR m = v OR m" for v m :: "32 word"
  by (rule bit_eqI) (auto simp: bit_simps)

lemma word_and_not_self_or: "v AND NOT (v OR m) = 0" for v m :: "32 word"
  by (rule bit_eqI) (auto simp: bit_simps)

lemma word_and_not_and: "(v AND NOT m) AND m = 0" for v m :: "32 word"
  by (rule bit_eqI) (auto simp: bit_simps)

lemma word_and_or_zero: "a AND b = 0 \<Longrightarrow> a AND c = 0 \<Longrightarrow> a AND (b OR c) = 0" for a b c :: "32 word"
  by (simp add: bit.conj_disj_distrib)

lemma word_or_and_disjoint: "m AND k = 0 \<Longrightarrow> (v OR m) AND k = v AND k" for v m k :: "32 word"
  by (simp add: bit.conj_disj_distrib2)

lemma word_and_not_and_disjoint: "m AND k = 0 \<Longrightarrow> (v AND NOT m) AND k = v AND k" for v m k :: "32 word"
  by (rule bit_eqI) (auto simp: bit_simps bit_eq_iff)

lemma word_xor_and_disjoint: "m AND k = 0 \<Longrightarrow> (v XOR m) AND k = v AND k" for v m k :: "32 word"
  by (rule bit_eqI) (auto simp: bit_simps bit_eq_iff)

lemma rd_plain: "r \<noteq> GPIOA_IDR \<Longrightarrow> rd r s = (regs s r, s\<lparr>trace := trace s @ [Rd r (regs s r)]\<rparr>)"
  by (simp add: rd_def)

lemma set_bits_plain:
  "r \<noteq> GPIOA_IDR \<Longrightarrow>
   set_bits r m s = wr r (regs s r OR m) (s\<lparr>trace := trace s @ [Rd r (regs s r)]\<rparr>)"
  by (simp add: set_bits_def rd_plain)

lemma clear_bits_plain:
  "r \<noteq> GPIOA_IDR \<Longrightarrow>
   clear_bits r m s = wr r (regs s r AND NOT m) (s\<lparr>trace := trace s @ [Rd r (regs s r)]\<rparr>)"
  by (simp add: clear_bits_def rd_plain)

lemma toggle_bits_plain:
  "r \<noteq> GPIOA_IDR \<Longrightarrow>
   toggle_bits r m s = wr r (regs s r XOR m) (s\<lparr>trace := trace s @ [Rd r (regs s r)]\<rparr>)"
  by (simp add: toggle_bits_def rd_plain)

lemma regs_wr_other: "r' \<noteq> r \<Longrightarrow> regs (wr r v s) r' = regs s r'"
  by (simp add: wr_def)

lemma regs_wr_same:
  "regs (wr r v s) r =
     (if r = EXTI_PR then regs s EXTI_PR AND NOT v
      else if r = NVIC_ISER then regs s NVIC_ISER OR v
      else if r = GPIOA_IDR then regs s GPIOA_IDR else v)"
  by (simp add: wr_def)

lemma pins_wr: "pins (wr r v s) = pins s"
  by (simp add: wr_def)

lemma trace_wr: "trace (wr r v s) = trace s @ [Wr r v]"
  by (simp add: wr_def)

lemma regs_spin: "regs (spin n s) = regs s" and pins_spin: "pins (spin n s) = pins s"
  and trace_spin: "trace (spin n s) = trace s @ [Spin (unat n)]"
  by (simp_all add: spin_def for_delay_eq)

lemma regs_wfi: "regs (wfi s) = regs s" and pins_wfi: "pins (wfi s) = pins s"
  and trace_wfi: "trace (wfi s) = trace s @ [WFI]"
  by (simp_all add: wfi_def)

lemmas op_simps = set_bits_plain clear_bits_plain toggle_bits_plain regs_wr_other regs_wr_same
  pins_wr trace_wr regs_spin pins_spin trace_spin regs_wfi pins_wfi trace_wfi

lemma regs_TIM14:
  "regs (TIM14_IRQHandler s) =
     (regs s)(GPIOA_ODR := regs s GPIOA_ODR AND NOT GPIO_ODR_4,
              TIM14_SR := regs s TIM14_SR AND NOT TIM_SR_UIF)"
  apply (rule ext)
  apply (simp add: TIM14_IRQHandler_def Let_def op_simps word_or_and_not word_and_not_or)
  done

lemma trace_TIM14:
  "trace (TIM14_IRQHandler s) = trace s @
     [Rd GPIOA_ODR (regs s GPIOA_ODR), Wr GPIOA_ODR (regs s GPIOA_ODR OR GPIO_ODR_4),
      Spin 15000,
      Rd GPIOA_ODR (regs s GPIOA_ODR OR GPIO_ODR_4), Wr GPIOA_ODR (regs s GPIOA_ODR AND NOT GPIO_ODR_4),
      Spin 2000000,
      Rd GPIOA_ODR (regs s GPIOA_ODR AND NOT GPIO_ODR_4), Wr GPIOA_ODR (regs s GPIOA_ODR OR GPIO_ODR_4),
      Spin 15000,
      Rd GPIOA_ODR (regs s GPIOA_ODR OR GPIO_ODR_4), Wr GPIOA_ODR (regs s GPIOA_ODR AND NOT GPIO_ODR_4),
      Rd TIM14_SR (regs s TIM14_SR), Wr TIM14_SR (regs s TIM14_SR AND NOT TIM_SR_UIF)]"
  by (simp add: TIM14_IRQHandler_def Let_def op_simps word_or_and_not word_and_not_or)

lemma pins_TIM14: "pins (TIM14_IRQHandler s) = pins s"
  by (simp add: TIM14_IRQHandler_def Let_def op_simps)

lemma wait_while_set_Some:
  "wait_while_set r m s = Some y \<Longrightarrow>
   r \<noteq> GPIOA_IDR \<longrightarrow> regs s r AND m = 0 \<and> y = s\<lparr>trace := trace s @ [Rd r (regs s r)]\<rparr>"
proof (rule wait_while_set.raw_induct
    [where P = "\<lambda>r m s y. r \<noteq> GPIOA_IDR \<longrightarrow>
                  regs s r AND m = 0 \<and> y = s\<lparr>trace := trace s @ [Rd r (regs s r)]\<rparr>"])
  fix w r m s y
  assume IH: "\<And>r m s y. w r m s = Some y \<Longrightarrow>
                 r \<noteq> GPIOA_IDR \<longrightarrow>
                 regs s r AND m = 0 \<and> y = s\<lparr>trace := trace s @ [Rd r (regs s r)]\<rparr>"
    and step: "(case rd r s of (v, s1) \<Rightarrow> if v AND m \<noteq> 0 then w r m s1 else Some s1) = Some y"
  show "r \<noteq> GPIOA_IDR \<longrightarrow>
          regs s r AND m = 0 \<and> y = s\<lparr>trace := trace s @ [Rd r (regs s r)]\<rparr>"
  proof
    assume r: "r \<noteq> GPIOA_IDR"
    show "regs s r AND m = 0 \<and> y = s\<lparr>trace := trace s @ [Rd r (regs s r)]\<rparr>"
    proof (cases "regs s r AND m = 0")
      case True
      with step r show ?thesis by (simp add: rd_plain)
    next
      case False
      with step r have "w r m (s\<lparr>trace := trace s @ [Rd r (regs s r)]\<rparr>) = Some y"
        by (simp add: rd_plain)
      from IH[OF this] r have "regs s r AND m = 0" by simp
      with False show ?thesis by simp
    qed
  qed
qed

lemma wait_while_set_plain:
  "r \<noteq> GPIOA_IDR \<Longrightarrow>
   wait_while_set r m s =
     (if regs s r AND m \<noteq> 0 then None else Some (s\<lparr>trace := trace s @ [Rd r (regs s r)]\<rparr>))"
proof (cases "regs s r AND m = 0")
  case True
  assume "r \<noteq> GPIOA_IDR"
  with True show ?thesis
    by (subst wait_while_set.simps) (simp add: rd_plain)
next
  case False
  assume r: "r \<noteq> GPIOA_IDR"
  have "wait_while_set r m s = None"
  proof (cases "wait_while_set r m s")
    case None
    then show ?thesis .
  next
    case (Some y)
    from wait_while_set_Some[OF this] r False show ?thesis by simp
  qed
  with False show ?thesis by simp
qed

text \<open>
  The wait on the input data register: when it returns, the pin has been read high, no
  other register has changed, and the loop has added only reads of \<open>GPIOA->IDR\<close>.
\<close>

lemma wait_while_clear_IDR_Some:
  "wait_while_clear r m s = Some y \<Longrightarrow>
   r = GPIOA_IDR \<longrightarrow>
     regs y GPIOA_IDR AND m \<noteq> 0 \<and> (\<forall>r'. r' \<noteq> GPIOA_IDR \<longrightarrow> regs y r' = regs s r') \<and>
     (\<exists>vs. trace y = trace s @ map (Rd GPIOA_IDR) vs)"
proof (rule wait_while_clear.raw_induct
    [where P = "\<lambda>r m s y. r = GPIOA_IDR \<longrightarrow>
     regs y GPIOA_IDR AND m \<noteq> 0 \<and> (\<forall>r'. r' \<noteq> GPIOA_IDR \<longrightarrow> regs y r' = regs s r') \<and>
     (\<exists>vs. trace y = trace s @ map (Rd GPIOA_IDR) vs)"])
  fix w r m s y
  assume IH: "\<And>r m s y. w r m s = Some y \<Longrightarrow>
     r = GPIOA_IDR \<longrightarrow>
     regs y GPIOA_IDR AND m \<noteq> 0 \<and> (\<forall>r'. r' \<noteq> GPIOA_IDR \<longrightarrow> regs y r' = regs s r') \<and>
     (\<exists>vs. trace y = trace s @ map (Rd GPIOA_IDR) vs)"
    and step: "(case rd r s of (v, s1) \<Rightarrow> if \<not> (v AND m \<noteq> 0) then w r m s1 else Some s1) = Some y"
  show "r = GPIOA_IDR \<longrightarrow>
     regs y GPIOA_IDR AND m \<noteq> 0 \<and> (\<forall>r'. r' \<noteq> GPIOA_IDR \<longrightarrow> regs y r' = regs s r') \<and>
     (\<exists>vs. trace y = trace s @ map (Rd GPIOA_IDR) vs)"
  proof
    assume r: "r = GPIOA_IDR"
    obtain v s1 where rd: "rd GPIOA_IDR s = (v, s1)" by (cases "rd GPIOA_IDR s")
    then have s1: "regs s1 GPIOA_IDR = v" "\<forall>r'. r' \<noteq> GPIOA_IDR \<longrightarrow> regs s1 r' = regs s r'"
      "trace s1 = trace s @ [Rd GPIOA_IDR v]"
      by (auto simp: rd_def split: list.splits)
    show "regs y GPIOA_IDR AND m \<noteq> 0 \<and> (\<forall>r'. r' \<noteq> GPIOA_IDR \<longrightarrow> regs y r' = regs s r') \<and>
     (\<exists>vs. trace y = trace s @ map (Rd GPIOA_IDR) vs)"
    proof (cases "v AND m = 0")
      case True
      with step r rd have "w GPIOA_IDR m s1 = Some y" by simp
      from IH[OF this] obtain vs where
        y: "regs y GPIOA_IDR AND m \<noteq> 0" "\<forall>r'. r' \<noteq> GPIOA_IDR \<longrightarrow> regs y r' = regs s1 r'"
          "trace y = trace s1 @ map (Rd GPIOA_IDR) vs"
        by auto
      from y(3) s1(3) have "trace y = trace s @ map (Rd GPIOA_IDR) (v # vs)" by simp
      then have "\<exists>vs. trace y = trace s @ map (Rd GPIOA_IDR) vs" ..
      moreover from y(2) s1(2) have "\<forall>r'. r' \<noteq> GPIOA_IDR \<longrightarrow> regs y r' = regs s r'"
        by simp
      ultimately show ?thesis using y(1) by simp
    next
      case False
      with step r rd have "y = s1" by simp
      moreover from s1(3) have "trace s1 = trace s @ map (Rd GPIOA_IDR) [v]" by simp
      then have "\<exists>vs. trace s1 = trace s @ map (Rd GPIOA_IDR) vs" ..
      ultimately show ?thesis using False s1(1,2) by simp
    qed
  qed
qed


lemma wait_while_clear_IDR_sample:
  "pins s = p # ps \<Longrightarrow>
   wait_while_clear GPIOA_IDR m s =
     (if p AND m \<noteq> 0
      then Some (s\<lparr>regs := (regs s)(GPIOA_IDR := p), pins := ps, trace := trace s @ [Rd GPIOA_IDR p]\<rparr>)
      else wait_while_clear GPIOA_IDR m
             (s\<lparr>regs := (regs s)(GPIOA_IDR := p), pins := ps, trace := trace s @ [Rd GPIOA_IDR p]\<rparr>))"
  by (subst wait_while_clear.simps) (simp add: rd_def)

lemma LEDS_disjoint_IDR_0: "LEDS AND GPIO_IDR_0 = 0" and LEDS_disjoint_IDR_1: "LEDS AND GPIO_IDR_1 = 0"
  by (simp_all add: LEDS_def GPIO_ODR_3_def GPIO_ODR_4_def GPIO_ODR_5_def GPIO_IDR_0_def GPIO_IDR_1_def)

lemma word_and_not_self_and: "v AND NOT v AND w = 0" for v w :: "32 word"
  by (rule bit_eqI) (auto simp: bit_simps)

lemma EXTI0_1_PR0:
  "regs s EXTI_PR AND EXTI_PR_PR0 \<noteq> 0 \<Longrightarrow>
   EXTI0_1_IRQHandler s =
     (if regs s GPIOA_ODR AND GPIO_IDR_0 \<noteq> 0 then None
      else Some (s\<lparr>regs := (regs s)(GPIOA_ODR := regs s GPIOA_ODR OR LEDS, EXTI_PR := 0),
                  trace := trace s @
                    [Rd EXTI_PR (regs s EXTI_PR),
                     Rd GPIOA_ODR (regs s GPIOA_ODR), Wr GPIOA_ODR (regs s GPIOA_ODR OR LEDS),
                     Spin 65000,
                     Rd GPIOA_ODR (regs s GPIOA_ODR OR LEDS),
                     Spin 2000000,
                     Rd EXTI_PR (regs s EXTI_PR), Wr EXTI_PR (regs s EXTI_PR OR EXTI_PR_PR0)]\<rparr>))"
  by (simp add: EXTI0_1_IRQHandler_def rd_plain wait_while_set_plain op_simps wr_def spin_def
      for_delay_eq word_or_and_disjoint LEDS_disjoint_IDR_0 word_and_not_self_or word_and_not_self_and)

lemma EXTI0_1_PR1:
  "regs s EXTI_PR AND EXTI_PR_PR0 = 0 \<Longrightarrow> regs s EXTI_PR AND EXTI_PR_PR1 \<noteq> 0 \<Longrightarrow>
   EXTI0_1_IRQHandler s =
     (if regs s GPIOA_ODR AND GPIO_IDR_1 \<noteq> 0 then None
      else Some (s\<lparr>regs := (regs s)(GPIOA_ODR := regs s GPIOA_ODR AND NOT LEDS, EXTI_PR := 0),
                  trace := trace s @
                    [Rd EXTI_PR (regs s EXTI_PR), Rd EXTI_PR (regs s EXTI_PR),
                     Rd GPIOA_ODR (regs s GPIOA_ODR), Wr GPIOA_ODR (regs s GPIOA_ODR AND NOT LEDS),
                     Spin 65000,
                     Rd GPIOA_ODR (regs s GPIOA_ODR AND NOT LEDS),
                     Spin 2000000,
                     Rd EXTI_PR (regs s EXTI_PR), Wr EXTI_PR (regs s EXTI_PR OR EXTI_PR_PR1)]\<rparr>))"
  by (simp add: EXTI0_1_IRQHandler_def rd_plain wait_while_set_plain op_simps wr_def spin_def
      for_delay_eq word_and_not_and_disjoint LEDS_disjoint_IDR_1 word_and_not_self_or word_and_not_self_and)

lemma EXTI0_1_none:
  "regs s EXTI_PR AND EXTI_PR_PR0 = 0 \<Longrightarrow> regs s EXTI_PR AND EXTI_PR_PR1 = 0 \<Longrightarrow>
   EXTI0_1_IRQHandler s =
     Some (s\<lparr>trace := trace s @ [Rd EXTI_PR (regs s EXTI_PR), Rd EXTI_PR (regs s EXTI_PR)]\<rparr>)"
  by (simp add: EXTI0_1_IRQHandler_def rd_plain)

lemma EXTI2_3_Some:
  assumes "EXTI2_3_IRQHandler s = Some s'"
  shows "regs s' EXTI_PR = 0"
    and "regs s' GPIOA_ODR = regs s GPIOA_ODR XOR LEDS"
    and "regs s' GPIOA_IDR AND GPIO_IDR_2 \<noteq> 0"
    and "\<forall>r. r \<noteq> EXTI_PR \<and> r \<noteq> GPIOA_ODR \<and> r \<noteq> GPIOA_IDR \<longrightarrow> regs s' r = regs s r"
    and "\<exists>vs. trace s' = trace s @
           [Rd GPIOA_ODR (regs s GPIOA_ODR), Wr GPIOA_ODR (regs s GPIOA_ODR XOR LEDS), Spin 100000] @
           map (Rd GPIOA_IDR) vs @
           [Spin 2000000, Rd EXTI_PR (regs s EXTI_PR), Wr EXTI_PR (regs s EXTI_PR OR EXTI_PR_PR2)]"
proof -
  let ?s2 = "spin 100000 (toggle_bits GPIOA_ODR LEDS s)"
  from assms obtain s3 where w: "wait_while_clear GPIOA_IDR GPIO_IDR_2 ?s2 = Some s3"
    and s': "s' = set_bits EXTI_PR EXTI_PR_PR2 (spin 2000000 s3)"
    by (auto simp: EXTI2_3_IRQHandler_def split: bind_splits)
  from wait_while_clear_IDR_Some[OF w] obtain vs where
    s3: "regs s3 GPIOA_IDR AND GPIO_IDR_2 \<noteq> 0"
      "\<forall>r'. r' \<noteq> GPIOA_IDR \<longrightarrow> regs s3 r' = regs ?s2 r'"
      "trace s3 = trace ?s2 @ map (Rd GPIOA_IDR) vs"
    by auto
  show "regs s' EXTI_PR = 0"
    by (simp add: s' op_simps word_and_not_self_or word_and_not_self_and)
  show "regs s' GPIOA_ODR = regs s GPIOA_ODR XOR LEDS"
    using s3(2) by (simp add: s' op_simps)
  show "regs s' GPIOA_IDR AND GPIO_IDR_2 \<noteq> 0"
    using s3(1) by (simp add: s' op_simps)
  show "\<forall>r. r \<noteq> EXTI_PR \<and> r \<noteq> GPIOA_ODR \<and> r \<noteq> GPIOA_IDR \<longrightarrow> regs s' r = regs s r"
    using s3(2) by (simp add: s' op_simps)
  have "trace s' = trace s @
           [Rd GPIOA_ODR (regs s GPIOA_ODR), Wr GPIOA_ODR (regs s GPIOA_ODR XOR LEDS), Spin 100000] @
           map (Rd GPIOA_IDR) vs @
           [Spin 2000000, Rd EXTI_PR (regs s EXTI_PR), Wr EXTI_PR (regs s EXTI_PR OR EXTI_PR_PR2)]"
    using s3(2,3) by (simp add: s' op_simps)
  then show "\<exists>vs. trace s' = trace s @
           [Rd GPIOA_ODR (regs s GPIOA_ODR), Wr GPIOA_ODR (regs s GPIOA_ODR XOR LEDS), Spin 100000] @
           map (Rd GPIOA_IDR) vs @
           [Spin 2000000, Rd EXTI_PR (regs s EXTI_PR), Wr EXTI_PR (regs s EXTI_PR OR EXTI_PR_PR2)]" ..
qed

section \<open>Claims about the handlers\<close>

text \<open>
  C1. Whenever a handler returns, the pending flags that can have called it are clear:
  \<open>PR0\<close> and \<open>PR1\<close> after \<open>EXTI0_1_IRQHandler\<close> (both of them when both were pending on
  entry, since \<open>EXTI->PR |= EXTI_PR_PR0\<close> writes back every pending bit it has read),
  \<open>PR2\<close> after \<open>EXTI2_3_IRQHandler\<close>, and \<open>UIF\<close> after \<open>TIM14_IRQHandler\<close>. The two EXTI
  handlers return only if their wait loop ends, hence the premises.
\<close>

theorem handlers_clear_pending:
  "(EXTI0_1_IRQHandler s = Some s' \<longrightarrow>
      regs s' EXTI_PR AND (EXTI_PR_PR0 OR EXTI_PR_PR1) = 0) \<and>
   (EXTI2_3_IRQHandler s = Some s'' \<longrightarrow> regs s'' EXTI_PR AND EXTI_PR_PR2 = 0) \<and>
   regs (TIM14_IRQHandler s) TIM14_SR AND TIM_SR_UIF = 0"
proof (intro conjI impI)
  assume ret: "EXTI0_1_IRQHandler s = Some s'"
  show "regs s' EXTI_PR AND (EXTI_PR_PR0 OR EXTI_PR_PR1) = 0"
  proof (cases "regs s EXTI_PR AND EXTI_PR_PR0 = 0")
    case False
    with ret have "regs s' EXTI_PR = 0"
      by (auto simp: EXTI0_1_PR0 split: if_splits)
    then show ?thesis by simp
  next
    case no0: True
    show ?thesis
    proof (cases "regs s EXTI_PR AND EXTI_PR_PR1 = 0")
      case False
      with ret no0 have "regs s' EXTI_PR = 0"
        by (auto simp: EXTI0_1_PR1 split: if_splits)
      then show ?thesis by simp
    next
      case True
      with ret no0 have "regs s' EXTI_PR = regs s EXTI_PR"
        by (auto simp: EXTI0_1_none)
      with no0 True show ?thesis
        by (simp add: word_and_or_zero)
    qed
  qed
next
  assume "EXTI2_3_IRQHandler s = Some s''"
  then have "regs s'' EXTI_PR = 0" by (rule EXTI2_3_Some(1))
  then show "regs s'' EXTI_PR AND EXTI_PR_PR2 = 0" by simp
next
  show "regs (TIM14_IRQHandler s) TIM14_SR AND TIM_SR_UIF = 0"
    by (simp add: regs_TIM14 word_and_not_and)
qed

text \<open>
  The premises of C1 are met: with lines 0 and 1 both pending, and with line 2 pending and
  the pin read low once and then high, the handlers return.
\<close>

theorem handlers_clear_pending_witness:
  "\<exists>s1 s2.
     EXTI0_1_IRQHandler (zero_mcu\<lparr>regs := (regs zero_mcu)(EXTI_PR := 3)\<rparr>) = Some s1 \<and>
     regs s1 EXTI_PR AND (EXTI_PR_PR0 OR EXTI_PR_PR1) = 0 \<and>
     EXTI2_3_IRQHandler (zero_mcu\<lparr>regs := (regs zero_mcu)(EXTI_PR := 4), pins := [0, 4]\<rparr>) = Some s2 \<and>
     regs s2 EXTI_PR AND EXTI_PR_PR2 = 0"
proof -
  let ?a = "zero_mcu\<lparr>regs := (regs zero_mcu)(EXTI_PR := 3)\<rparr>"
  let ?b = "zero_mcu\<lparr>regs := (regs zero_mcu)(EXTI_PR := 4), pins := [0, 4]\<rparr>"
  have "EXTI0_1_IRQHandler ?a \<noteq> None"
    by (simp add: EXTI0_1_PR0 zero_mcu_def EXTI_PR_PR0_def GPIO_IDR_0_def)
  then obtain s1 where s1: "EXTI0_1_IRQHandler ?a = Some s1" by blast
  have "EXTI2_3_IRQHandler ?b \<noteq> None"
    by (simp add: EXTI2_3_IRQHandler_def op_simps wait_while_clear_IDR_sample zero_mcu_def
        GPIO_IDR_2_def)
  then obtain s2 where s2: "EXTI2_3_IRQHandler ?b = Some s2" by blast
  from s1 handlers_clear_pending[of ?a s1]
  have "regs s1 EXTI_PR AND (EXTI_PR_PR0 OR EXTI_PR_PR1) = 0" by blast
  moreover from s2 handlers_clear_pending[of ?b _ s2]
  have "regs s2 EXTI_PR AND EXTI_PR_PR2 = 0" by blast
  ultimately show ?thesis using s1 s2 by blast
qed

section \<open>Facts about the sleep loop\<close>

lemma regs_sleep_cycle:
  "regs (sleep_cycle s) =
     (regs s)(PWR_CR := regs s PWR_CR OR PWR_CR_CWUF,
              TIM14_SR := regs s TIM14_SR AND NOT TIM_SR_UIF)"
  by (rule ext) (simp add: sleep_cycle_def Let_def op_simps)

lemma trace_sleep_cycle:
  "trace (sleep_cycle s) = trace s @
     [Rd PWR_CR (regs s PWR_CR), Wr PWR_CR (regs s PWR_CR OR PWR_CR_CWUF),
      Rd TIM14_SR (regs s TIM14_SR), Wr TIM14_SR (regs s TIM14_SR AND NOT TIM_SR_UIF),
      WFI]"
  by (simp add: sleep_cycle_def Let_def op_simps)

lemma pins_sleep_cycle: "pins (sleep_cycle s) = pins s"
  by (simp add: sleep_cycle_def Let_def op_simps)

lemma new_events_append: "trace s' = trace s @ t \<Longrightarrow> new_events s s' = t"
  by (simp add: new_events_def)

lemma main_loop_snoc:
  "main_loop cfg (ws @ [(i, f)]) s =
     Option.bind (main_loop cfg ws s)
       (\<lambda>s1. Option.bind (dispatch cfg i (latch i f s1)) (\<lambda>s2. Some (sleep_cycle s2)))"
proof (induction ws arbitrary: s)
  case Nil
  have "main_loop cfg [] = (\<lambda>s2. Some (sleep_cycle s2))"
    by (rule ext) simp
  then show ?case by simp
next
  case (Cons w ws)
  obtain j g where w: "w = (j, g)" by (cases w)
  show ?case
    by (cases "dispatch cfg j (latch j g (sleep_cycle s))") (simp_all add: w Cons.IH)
qed

lemma main_loop_asleep:
  "main_loop cfg ws s = Some s' \<Longrightarrow> \<exists>s1. s' = sleep_cycle s1"
proof (induction ws arbitrary: s)
  case Nil
  then show ?case by auto
next
  case (Cons w ws)
  obtain j g where w: "w = (j, g)" by (cases w)
  from Cons.prems obtain s2 where "main_loop cfg ws s2 = Some s'"
    by (auto simp: w split: bind_splits)
  then show ?case by (rule Cons.IH)
qed

lemma trace_latch: "trace (latch i f s) = trace s" and pins_latch: "pins (latch i f s) = pins s"
  by (cases i; simp)+

lemma regs_latch_ODR: "regs (latch i f s) GPIOA_ODR = regs s GPIOA_ODR"
  by (cases i) simp_all

section \<open>Facts about the initialisation\<close>

lemma priority_reg_simps:
  "priority_reg EXTI0_1_IRQn = NVIC_IP 1"
  "priority_reg EXTI2_3_IRQn = NVIC_IP 1"
  "priority_reg TIM14_IRQn = NVIC_IP 4"
  "priority_reg SysTick_IRQn = SCB_SHP 1"
  by (simp_all add: priority_reg_def IP_IDX_def SHP_IDX_def irq_word_def drop_bit_eq_div)

lemma BIT_SHIFT_simps:
  "BIT_SHIFT EXTI0_1_IRQn = 8"
  "BIT_SHIFT EXTI2_3_IRQn = 16"
  "BIT_SHIFT TIM14_IRQn = 24"
  "BIT_SHIFT SysTick_IRQn = 24"
  by (simp_all add: BIT_SHIFT_def irq_word_def)

lemma NVIC_SetPriority_plain:
  "NVIC_SetPriority i p s =
     wr (priority_reg i)
       ((regs s (priority_reg i) AND NOT (push_bit (BIT_SHIFT i) 0xFF)) OR
        push_bit (BIT_SHIFT i) (push_bit (8 - NVIC_PRIO_BITS) p AND 0xFF))
       (s\<lparr>trace := trace s @ [Rd (priority_reg i) (regs s (priority_reg i))]\<rparr>)"
  by (cases i) (simp_all add: NVIC_SetPriority_def priority_reg_simps rd_plain)

lemmas init_defs = main_init_def gpio_setup_def button_setup_def timer_setup_def
  systick_setup_def standby_setup_def stop_setup_def sleep_setup_def SysTick_Config_def
  NVIC_SetPriority_plain NVIC_EnableIRQ_def priority_reg_simps Let_def

lemma regs_main_init_ODR: "regs (main_init cfg s) GPIOA_ODR = regs s GPIOA_ODR"
  by (simp add: init_defs op_simps)

lemma regs_main_init_TIM14:
  "TIMER_INTERRUPT cfg \<Longrightarrow> regs (main_init cfg s) TIM14_PSC = 7999"
  "TIMER_INTERRUPT cfg \<Longrightarrow> regs (main_init cfg s) TIM14_ARR = 9999"
  "TIMER_INTERRUPT cfg \<Longrightarrow> regs (main_init cfg s) TIM14_CR1 = regs s TIM14_CR1 OR TIM_CR1_CEN"
  "TIMER_INTERRUPT cfg \<Longrightarrow> regs (main_init cfg s) TIM14_DIER = regs s TIM14_DIER OR TIM_DIER_UIE"
  by (simp_all add: init_defs op_simps)

lemma pins_main_init: "pins (main_init cfg s) = pins s"
  by (simp add: init_defs op_simps)

section \<open>Facts about the priority fields\<close>

lemma ff_mask: "(0xFF :: 32 word) = mask 8"
  by (simp add: mask_eq_exp_minus_1)

lemma bit_0x40: "bit (0x40 :: int) n \<longleftrightarrow> n = 6"
proof -
  have "(0x40 :: int) = 2 ^ 6" by simp
  then have "bit (0x40 :: int) n \<longleftrightarrow> bit (2 ^ 6 :: int) n" by (simp only:)
  also have "\<dots> \<longleftrightarrow> n = 6" by (simp only: bit_exp_iff) simp
  finally show ?thesis .
qed

lemma prio_field_8:
  "drop_bit 8 ((((a AND NOT (push_bit 8 0xFF)) OR push_bit 8 0x40)
        AND NOT (push_bit 16 0xFF)) OR push_bit 16 0) AND 0xFF = (0x40 :: 32 word)"
  unfolding ff_mask
  by (rule bit_eqI) (auto simp: bit_simps bit_0x40)

lemma prio_field_16:
  "drop_bit 16 ((((a AND NOT (push_bit 8 0xFF)) OR push_bit 8 0x40)
        AND NOT (push_bit 16 0xFF)) OR push_bit 16 0) AND 0xFF = (0 :: 32 word)"
  unfolding ff_mask
  by (rule bit_eqI) (auto simp: bit_simps bit_0x40)

lemma regs_main_init_IP1:
  "BUTTON_INTERRUPT cfg \<Longrightarrow>
   regs (main_init cfg s) (NVIC_IP 1) =
     (((regs s (NVIC_IP 1) AND NOT (push_bit 8 0xFF)) OR push_bit 8 0x40)
        AND NOT (push_bit 16 0xFF)) OR push_bit 16 0"
  by (simp add: init_defs op_simps BIT_SHIFT_simps NVIC_PRIO_BITS_def)

section \<open>Claims about the initialisation\<close>

text \<open>
  C8. With \<open>__BUTTON_INTERRUPT\<close> defined, whatever else is configured and whatever the
  priority registers held before, initialisation leaves the request of lines 2 and 3
  (button 3 on PA2) at priority 0 and the request of lines 0 and 1 at priority 1, as
  \<open>NVIC_GetPriority\<close> reads them back: the urgent line has the strictly lower number, which
  on the NVIC is the higher priority (main.c 307-310, 331, 334: "0 = highest"). So the
  request of button 3 interrupts the handler of buttons 1 and 2, and not the other way
  round.
\<close>

theorem urgent_line_priority:
  "BUTTON_INTERRUPT cfg \<Longrightarrow>
   NVIC_GetPriority (main_init cfg s) EXTI2_3_IRQn = 0 \<and>
   NVIC_GetPriority (main_init cfg s) EXTI0_1_IRQn = 1 \<and>
   preempts (main_init cfg s) EXTI2_3_IRQn EXTI0_1_IRQn \<and>
   \<not> preempts (main_init cfg s) EXTI0_1_IRQn EXTI2_3_IRQn"
proof -
  assume b: "BUTTON_INTERRUPT cfg"
  let ?X = "regs (main_init cfg s) (NVIC_IP 1)"
  have f8: "drop_bit 8 ?X AND 0xFF = 0x40"
    by (simp only: regs_main_init_IP1[OF b] prio_field_8)
  have f16: "drop_bit 16 ?X AND 0xFF = 0"
    by (simp only: regs_main_init_IP1[OF b] prio_field_16)
  have "NVIC_GetPriority (main_init cfg s) EXTI2_3_IRQn =
          drop_bit (8 - 2) (drop_bit 16 ?X AND 0xFF)"
    by (simp only: NVIC_GetPriority_def priority_reg_simps BIT_SHIFT_simps NVIC_PRIO_BITS_def)
  also have "\<dots> = 0"
    by (simp only: f16) simp
  finally have p23: "NVIC_GetPriority (main_init cfg s) EXTI2_3_IRQn = 0" .
  have "NVIC_GetPriority (main_init cfg s) EXTI0_1_IRQn =
          drop_bit (8 - 2) (drop_bit 8 ?X AND 0xFF)"
    by (simp only: NVIC_GetPriority_def priority_reg_simps BIT_SHIFT_simps NVIC_PRIO_BITS_def)
  also have "\<dots> = 1"
    by (simp only: f8) (simp add: drop_bit_eq_div)
  finally have p01: "NVIC_GetPriority (main_init cfg s) EXTI0_1_IRQn = 1" .
  from p23 p01 show ?thesis by (simp add: preempts_def)
qed

theorem urgent_line_priority_witness:
  "BUTTON_INTERRUPT button_sleep_config \<and>
   NVIC_GetPriority (main_init button_sleep_config zero_mcu) EXTI2_3_IRQn = 0 \<and>
   NVIC_GetPriority (main_init button_sleep_config zero_mcu) EXTI0_1_IRQn = 1 \<and>
   preempts (main_init button_sleep_config zero_mcu) EXTI2_3_IRQn EXTI0_1_IRQn \<and>
   \<not> preempts (main_init button_sleep_config zero_mcu) EXTI0_1_IRQn EXTI2_3_IRQn"
proof -
  have b: "BUTTON_INTERRUPT button_sleep_config"
    by (simp add: button_sleep_config_def)
  from b urgent_line_priority[OF b, of zero_mcu] show ?thesis by simp
qed

section \<open>Claims about the sleep loop\<close>

lemma word_or_and_self: "(v OR m) AND m = m" for v m :: "32 word"
  by (rule bit_eqI) (auto simp: bit_simps)

lemma main_asleep: "main cfg ws s = Some s' \<Longrightarrow> \<exists>s1. s' = sleep_cycle s1"
  unfolding main_def by (rule main_loop_asleep)

text \<open>
  C2, as stated, fails: in the loop body the operation that follows the write of \<open>CWUF\<close>
  to \<open>PWR->CR\<close> is not \<open>__WFI()\<close> but the read of \<open>TIM14->SR\<close> that starts
  \<open>TIM14->SR &= ~TIM_SR_UIF\<close> (main.c 424).
\<close>

theorem wake_clear_not_adjacent_to_wfi:
  "after_wake_clear (new_events zero_mcu (sleep_cycle zero_mcu)) = Some (Rd TIM14_SR 0) \<and>
   after_wake_clear (new_events zero_mcu (sleep_cycle zero_mcu)) \<noteq> Some WFI"
  by (simp add: new_events_append[OF trace_sleep_cycle] zero_mcu_def PWR_CR_CWUF_def)

text \<open>
  C2, amended. Every iteration of the loop is one run of the loop body, and whenever the
  core is asleep it has just run it. From any state the body does exactly this, in this
  order: it sets \<open>CWUF\<close> in \<open>PWR->CR\<close>; it clears \<open>UIF\<close> in \<open>TIM14->SR\<close>; it executes
  \<open>__WFI()\<close>. The write to \<open>TIM14->SR\<close> is the only operation between the wake-flag clear
  and the sleep instruction, and \<open>PWR->CR\<close> still holds what the clear wrote when the core
  goes to sleep.
\<close>

theorem wake_clear_then_timer_clear_then_wfi:
  "new_events s (sleep_cycle s) =
     [Rd PWR_CR (regs s PWR_CR), Wr PWR_CR (regs s PWR_CR OR PWR_CR_CWUF),
      Rd TIM14_SR (regs s TIM14_SR), Wr TIM14_SR (regs s TIM14_SR AND NOT TIM_SR_UIF),
      WFI] \<and>
   (regs s PWR_CR OR PWR_CR_CWUF) AND PWR_CR_CWUF = PWR_CR_CWUF \<and>
   regs (sleep_cycle s) PWR_CR = regs s PWR_CR OR PWR_CR_CWUF \<and>
   (main cfg ws s0 = Some s' \<longrightarrow> (\<exists>s1. s' = sleep_cycle s1))"
  by (simp add: new_events_append[OF trace_sleep_cycle] regs_sleep_cycle word_or_and_self
      main_asleep)

theorem wake_clear_then_timer_clear_then_wfi_witness:
  "\<exists>s' s1. main committed_config [(TIM14_IRQn, TIM_SR_UIF)] zero_mcu = Some s' \<and>
     s' = sleep_cycle s1 \<and>
     new_events s1 s' =
       [Rd PWR_CR (regs s1 PWR_CR), Wr PWR_CR (regs s1 PWR_CR OR PWR_CR_CWUF),
        Rd TIM14_SR (regs s1 TIM14_SR), Wr TIM14_SR (regs s1 TIM14_SR AND NOT TIM_SR_UIF),
        WFI]"
proof -
  have "main committed_config [(TIM14_IRQn, TIM_SR_UIF)] zero_mcu \<noteq> None"
    by (simp add: main_def committed_config_def)
  then obtain s' where s': "main committed_config [(TIM14_IRQn, TIM_SR_UIF)] zero_mcu = Some s'"
    by blast
  with wake_clear_then_timer_clear_then_wfi
    [of _ committed_config "[(TIM14_IRQn, TIM_SR_UIF)]" zero_mcu s']
  obtain s1 where s1: "s' = sleep_cycle s1" by blast
  from wake_clear_then_timer_clear_then_wfi[of s1] s' s1 show ?thesis by blast
qed

text \<open>
  C9. Whatever the configuration, and so also when \<open>__TIMER_INTERRUPT\<close> is not defined,
  every time the core goes to sleep the loop body has just cleared \<open>UIF\<close> in \<open>TIM14->SR\<close>,
  after the wake-flag clear and before \<open>__WFI()\<close>: the last five operations are the two
  read-modify-writes and the sleep instruction, and \<open>UIF\<close> reads 0.
\<close>

theorem timer_flag_cleared_before_every_sleep:
  "main cfg ws s0 = Some s' \<Longrightarrow>
   \<exists>t c u. trace s' = t @
       [Rd PWR_CR c, Wr PWR_CR (c OR PWR_CR_CWUF),
        Rd TIM14_SR u, Wr TIM14_SR (u AND NOT TIM_SR_UIF), WFI] \<and>
     regs s' TIM14_SR AND TIM_SR_UIF = 0"
proof -
  assume "main cfg ws s0 = Some s'"
  then obtain s1 where s1: "s' = sleep_cycle s1" by (auto dest: main_asleep)
  have "trace s' = trace s1 @
       [Rd PWR_CR (regs s1 PWR_CR), Wr PWR_CR (regs s1 PWR_CR OR PWR_CR_CWUF),
        Rd TIM14_SR (regs s1 TIM14_SR), Wr TIM14_SR (regs s1 TIM14_SR AND NOT TIM_SR_UIF), WFI]"
    by (simp add: s1 trace_sleep_cycle)
  moreover have "regs s' TIM14_SR AND TIM_SR_UIF = 0"
    by (simp add: s1 regs_sleep_cycle word_and_not_and)
  ultimately show ?thesis by blast
qed

theorem timer_flag_cleared_before_every_sleep_witness:
  "\<not> TIMER_INTERRUPT button_sleep_config \<and>
   (\<exists>s' t c u. main button_sleep_config [(EXTI0_1_IRQn, EXTI_PR_PR0)] zero_mcu = Some s' \<and>
      trace s' = t @
        [Rd PWR_CR c, Wr PWR_CR (c OR PWR_CR_CWUF),
         Rd TIM14_SR u, Wr TIM14_SR (u AND NOT TIM_SR_UIF), WFI] \<and>
      regs s' TIM14_SR AND TIM_SR_UIF = 0)"
proof -
  have "main button_sleep_config [(EXTI0_1_IRQn, EXTI_PR_PR0)] zero_mcu \<noteq> None"
    by (simp add: main_def button_sleep_config_def EXTI0_1_PR0 regs_sleep_cycle
        regs_main_init_ODR zero_mcu_def EXTI_PR_PR0_def GPIO_IDR_0_def)
  then obtain s' where s': "main button_sleep_config [(EXTI0_1_IRQn, EXTI_PR_PR0)] zero_mcu = Some s'"
    by blast
  from timer_flag_cleared_before_every_sleep[OF s'] s' show ?thesis
    by (simp add: button_sleep_config_def)
qed

section \<open>Claims about the timer scenario\<close>

lemma count_wfi_setup:
  "count_wfi (trace (gpio_setup s)) = count_wfi (trace s)"
  "count_wfi (trace (button_setup s)) = count_wfi (trace s)"
  "count_wfi (trace (timer_setup s)) = count_wfi (trace s)"
  "count_wfi (trace (systick_setup s)) = count_wfi (trace s)"
  "count_wfi (trace (standby_setup s)) = count_wfi (trace s)"
  "count_wfi (trace (stop_setup s)) = count_wfi (trace s)"
  "count_wfi (trace (sleep_setup s)) = count_wfi (trace s)"
  by (simp_all add: gpio_setup_def button_setup_def timer_setup_def systick_setup_def
      standby_setup_def stop_setup_def sleep_setup_def SysTick_Config_def
      NVIC_SetPriority_plain NVIC_EnableIRQ_def priority_reg_simps Let_def op_simps
      count_wfi_def)

lemma count_wfi_main_init: "count_wfi (trace (main_init cfg s)) = count_wfi (trace s)"
  by (simp add: main_init_def Let_def count_wfi_setup)

lemma led_view_TIM14:
  "led_view GPIO_ODR_4 (new_events s (TIM14_IRQHandler s)) =
     [On, Pause 15000, Off, Pause 2000000, On, Pause 15000, Off]"
proof -
  have nz: "GPIO_ODR_4 \<noteq> 0" by (simp add: GPIO_ODR_4_def)
  show ?thesis
    by (simp add: new_events_append[OF trace_TIM14] led_view_def map_filter_simps
        word_or_and_self word_and_not_and nz)
qed

lemma timer_run:
  "TIMER_INTERRUPT cfg \<Longrightarrow>
   \<exists>s'. main_loop cfg (replicate n (TIM14_IRQn, f)) s = Some s' \<and>
     count_wfi (trace s') = count_wfi (trace s) + Suc n \<and> last (trace s') = WFI"
proof (induction n)
  case 0
  show ?case
    by (simp add: trace_sleep_cycle count_wfi_def)
next
  case (Suc n)
  from Suc.IH[OF Suc.prems] obtain s1 where
    s1: "main_loop cfg (replicate n (TIM14_IRQn, f)) s = Some s1"
      "count_wfi (trace s1) = count_wfi (trace s) + Suc n"
    by blast
  let ?s2 = "sleep_cycle (TIM14_IRQHandler (latch TIM14_IRQn f s1))"
  have "replicate (Suc n) (TIM14_IRQn, f) = replicate n (TIM14_IRQn, f) @ [(TIM14_IRQn, f)]"
    by (simp add: replicate_append_same)
  then have run: "main_loop cfg (replicate (Suc n) (TIM14_IRQn, f)) s = Some ?s2"
    using s1(1) Suc.prems by (simp only: main_loop_snoc) simp
  have "count_wfi (trace ?s2) = count_wfi (trace s1) + 1"
    by (simp add: trace_sleep_cycle trace_TIM14 count_wfi_def)
  with s1(2) have "count_wfi (trace ?s2) = count_wfi (trace s) + Suc (Suc n)"
    by simp
  moreover have "last (trace ?s2) = WFI"
    by (simp add: trace_sleep_cycle)
  ultimately show ?case using run by blast
qed

text \<open>
  C7. Every call of \<open>TIM14_IRQHandler\<close> shows two pulses on PA4, each held for the short
  busy-wait, with the long busy-wait between them, and returns with PA4 off. With
  \<open>__TIMER_INTERRUPT\<close> defined, initialisation programs the prescaler with 8000 - 1 and the
  auto-reload register with 10000 - 1, which at the 8 MHz clock is an overflow every 10
  seconds, starts the counter and enables its update interrupt. And the loop does not
  end: after any number \<open>n\<close> of timer interrupts the program has executed \<open>__WFI()\<close> once
  more than \<open>n\<close> times and is asleep in the last of them.
\<close>

theorem timer_flashes_twice_every_period:
  "led_view GPIO_ODR_4 (new_events s (TIM14_IRQHandler s)) =
     [On, Pause 15000, Off, Pause 2000000, On, Pause 15000, Off] \<and>
   regs (TIM14_IRQHandler s) GPIOA_ODR AND GPIO_ODR_4 = 0 \<and>
   (TIMER_INTERRUPT cfg \<longrightarrow>
      regs (main_init cfg s) TIM14_PSC = 8000 - 1 \<and>
      regs (main_init cfg s) TIM14_ARR = 10000 - 1 \<and>
      TIM14_period_cycles (main_init cfg s) = 10 * HSI_HZ \<and>
      regs (main_init cfg s) TIM14_CR1 AND TIM_CR1_CEN = TIM_CR1_CEN \<and>
      regs (main_init cfg s) TIM14_DIER AND TIM_DIER_UIE = TIM_DIER_UIE \<and>
      (\<forall>n. \<exists>s'. main cfg (replicate n (TIM14_IRQn, TIM_SR_UIF)) s = Some s' \<and>
             count_wfi (trace s') = count_wfi (trace s) + Suc n \<and>
             last (trace s') = WFI))"
proof (intro conjI impI allI)
  show "led_view GPIO_ODR_4 (new_events s (TIM14_IRQHandler s)) =
     [On, Pause 15000, Off, Pause 2000000, On, Pause 15000, Off]"
    by (rule led_view_TIM14)
  show "regs (TIM14_IRQHandler s) GPIOA_ODR AND GPIO_ODR_4 = 0"
    by (simp add: regs_TIM14 word_and_not_and)
next
  assume t: "TIMER_INTERRUPT cfg"
  show "regs (main_init cfg s) TIM14_PSC = 8000 - 1"
    and "regs (main_init cfg s) TIM14_ARR = 10000 - 1"
    by (simp_all add: regs_main_init_TIM14[OF t])
  show "TIM14_period_cycles (main_init cfg s) = 10 * HSI_HZ"
    by (simp add: TIM14_period_cycles_def HSI_HZ_def regs_main_init_TIM14[OF t])
  show "regs (main_init cfg s) TIM14_CR1 AND TIM_CR1_CEN = TIM_CR1_CEN"
    and "regs (main_init cfg s) TIM14_DIER AND TIM_DIER_UIE = TIM_DIER_UIE"
    by (simp_all add: regs_main_init_TIM14[OF t] word_or_and_self)
  fix n
  from timer_run[OF t, of n TIM_SR_UIF "main_init cfg s"]
  show "\<exists>s'. main cfg (replicate n (TIM14_IRQn, TIM_SR_UIF)) s = Some s' \<and>
             count_wfi (trace s') = count_wfi (trace s) + Suc n \<and>
             last (trace s') = WFI"
    by (simp add: main_def count_wfi_main_init)
qed

theorem timer_flashes_twice_every_period_witness:
  "TIMER_INTERRUPT committed_config \<and>
   regs (main_init committed_config zero_mcu) TIM14_PSC = 7999 \<and>
   regs (main_init committed_config zero_mcu) TIM14_ARR = 9999 \<and>
   TIM14_period_cycles (main_init committed_config zero_mcu) = 80000000 \<and>
   (\<exists>s'. main committed_config
            [(TIM14_IRQn, TIM_SR_UIF), (TIM14_IRQn, TIM_SR_UIF), (TIM14_IRQn, TIM_SR_UIF)]
            zero_mcu = Some s' \<and>
         count_wfi (trace s') = 4 \<and> last (trace s') = WFI)"
proof -
  have t: "TIMER_INTERRUPT committed_config"
    by (simp add: committed_config_def)
  have r: "replicate 3 (TIM14_IRQn, TIM_SR_UIF) =
             [(TIM14_IRQn, TIM_SR_UIF), (TIM14_IRQn, TIM_SR_UIF), (TIM14_IRQn, TIM_SR_UIF)]"
    by (simp add: numeral_3_eq_3)
  have z: "count_wfi (trace zero_mcu) = 0"
    by (simp add: zero_mcu_def count_wfi_def)
  from timer_flashes_twice_every_period[of zero_mcu committed_config] t
  have "regs (main_init committed_config zero_mcu) TIM14_PSC = 8000 - 1"
    and "regs (main_init committed_config zero_mcu) TIM14_ARR = 10000 - 1"
    and "TIM14_period_cycles (main_init committed_config zero_mcu) = 10 * HSI_HZ"
    and "\<exists>s'. main committed_config (replicate 3 (TIM14_IRQn, TIM_SR_UIF)) zero_mcu = Some s' \<and>
             count_wfi (trace s') = count_wfi (trace zero_mcu) + Suc 3 \<and>
             last (trace s') = WFI"
    by blast+
  with t show ?thesis
    by (simp add: r z HSI_HZ_def)
qed

text \<open>
  C5, at a failing input. With only line 0 pending and all outputs low,
  \<open>EXTI0_1_IRQHandler\<close> returns with \<open>GPIOA->ODR\<close> = 0x38: it has set PA4 and PA5 along
  with PA3, where the claim, and the comment on that line of main.c ("Turn ON PA3 LED"),
  have it change PA3 alone.
\<close>

theorem button_handler_writes_all_three_outputs:
  "map_option (\<lambda>s'. regs s' GPIOA_ODR)
     (EXTI0_1_IRQHandler (zero_mcu\<lparr>regs := (regs zero_mcu)(EXTI_PR := EXTI_PR_PR0)\<rparr>))
     = Some 0x38 \<and>
   (0x38 :: 32 word) AND GPIO_ODR_4 = GPIO_ODR_4 \<and> (0x38 :: 32 word) AND GPIO_ODR_5 = GPIO_ODR_5 \<and>
   regs zero_mcu GPIOA_ODR = 0"
  by (simp add: EXTI0_1_PR0 zero_mcu_def EXTI_PR_PR0_def GPIO_IDR_0_def LEDS_def
      GPIO_ODR_3_def GPIO_ODR_4_def GPIO_ODR_5_def)

section \<open>Output bit 0 is never written\<close>

lemma ODR_masks_disjoint_IDR_0:
  "GPIO_ODR_4 AND GPIO_IDR_0 = 0" "GPIO_ODR_5 AND GPIO_IDR_0 = 0"
  by (simp_all add: GPIO_ODR_4_def GPIO_ODR_5_def GPIO_IDR_0_def)

lemma dispatch_ODR_bit0:
  assumes "dispatch cfg i s = Some s'"
  shows "regs s' GPIOA_ODR AND GPIO_IDR_0 = regs s GPIOA_ODR AND GPIO_IDR_0"
proof (cases i)
  case SysTick_IRQn
  with assms show ?thesis
    by (auto simp: SysTick_Handler_def op_simps word_xor_and_disjoint ODR_masks_disjoint_IDR_0
        split: if_splits)
next
  case EXTI0_1_IRQn
  with assms have ret: "EXTI0_1_IRQHandler s = Some s'"
    by (auto split: if_splits)
  show ?thesis
  proof (cases "regs s EXTI_PR AND EXTI_PR_PR0 = 0")
    case False
    with ret show ?thesis
      by (auto simp: EXTI0_1_PR0 word_or_and_disjoint LEDS_disjoint_IDR_0 split: if_splits)
  next
    case no0: True
    show ?thesis
    proof (cases "regs s EXTI_PR AND EXTI_PR_PR1 = 0")
      case False
      with ret no0 show ?thesis
        by (auto simp: EXTI0_1_PR1 word_and_not_and_disjoint LEDS_disjoint_IDR_0
            split: if_splits)
    next
      case True
      with ret no0 show ?thesis
        by (auto simp: EXTI0_1_none)
    qed
  qed
next
  case EXTI2_3_IRQn
  with assms have "EXTI2_3_IRQHandler s = Some s'"
    by (auto split: if_splits)
  then have "regs s' GPIOA_ODR = regs s GPIOA_ODR XOR LEDS"
    by (rule EXTI2_3_Some(2))
  then show ?thesis
    by (simp add: word_xor_and_disjoint LEDS_disjoint_IDR_0)
next
  case TIM14_IRQn
  with assms show ?thesis
    by (auto simp: regs_TIM14 word_and_not_and_disjoint ODR_masks_disjoint_IDR_0
        split: if_splits)
qed

lemma main_loop_ODR_bit0:
  "main_loop cfg ws s = Some s' \<Longrightarrow>
   regs s' GPIOA_ODR AND GPIO_IDR_0 = regs s GPIOA_ODR AND GPIO_IDR_0"
proof (induction ws arbitrary: s)
  case Nil
  then show ?case by (auto simp: regs_sleep_cycle)
next
  case (Cons w ws)
  obtain j g where w: "w = (j, g)" by (cases w)
  from Cons.prems obtain s2 where
    d: "dispatch cfg j (latch j g (sleep_cycle s)) = Some s2"
    and m: "main_loop cfg ws s2 = Some s'"
    by (auto simp: w split: bind_splits)
  from Cons.IH[OF m] dispatch_ODR_bit0[OF d] show ?case
    by (simp add: regs_latch_ODR regs_sleep_cycle)
qed

lemma main_ODR_bit0:
  "main cfg ws s = Some s' \<Longrightarrow>
   regs s' GPIOA_ODR AND GPIO_IDR_0 = regs s GPIOA_ODR AND GPIO_IDR_0"
  unfolding main_def by (drule main_loop_ODR_bit0) (simp add: regs_main_init_ODR)

lemma main_snoc:
  "main cfg ws s = Some s1 \<Longrightarrow> dispatch cfg i (latch i f s1) = Some s2 \<Longrightarrow>
   main cfg (ws @ [(i, f)]) s = Some (sleep_cycle s2)"
  by (simp add: main_def main_loop_snoc)


section \<open>Claims about button 1\<close>

lemma word_or_and_nonzero: "f AND m \<noteq> 0 \<Longrightarrow> (p OR f) AND m \<noteq> 0" for f m p :: "32 word"
  by (simp add: bit.conj_disj_distrib2 or_eq_0_iff)

lemma EXTI0_1_after_latch:
  assumes odr: "regs s GPIOA_ODR AND GPIO_IDR_0 = 0" and f: "f AND EXTI_PR_PR0 \<noteq> 0"
  shows "\<exists>s1. EXTI0_1_IRQHandler (latch EXTI0_1_IRQn f s) = Some s1 \<and>
           regs s1 = (regs s)(GPIOA_ODR := regs s GPIOA_ODR OR LEDS, EXTI_PR := 0) \<and>
           pins s1 = pins s \<and>
           trace s1 = trace s @
             [Rd EXTI_PR (regs s EXTI_PR OR f),
              Rd GPIOA_ODR (regs s GPIOA_ODR), Wr GPIOA_ODR (regs s GPIOA_ODR OR LEDS),
              Spin 65000,
              Rd GPIOA_ODR (regs s GPIOA_ODR OR LEDS),
              Spin 2000000,
              Rd EXTI_PR (regs s EXTI_PR OR f),
              Wr EXTI_PR ((regs s EXTI_PR OR f) OR EXTI_PR_PR0)]"
proof -
  let ?e = "latch EXTI0_1_IRQn f s"
  from f have "regs ?e EXTI_PR AND EXTI_PR_PR0 \<noteq> 0"
    by (simp add: word_or_and_nonzero)
  moreover from odr have "regs ?e GPIOA_ODR AND GPIO_IDR_0 = 0"
    by simp
  ultimately show ?thesis
    by (simp add: EXTI0_1_PR0 del: latch.simps) (simp add: fun_upd_twist)
qed

lemma led_view_button1:
  "led_view GPIO_ODR_3
     [Rd EXTI_PR p, Rd GPIOA_ODR v, Wr GPIOA_ODR (v OR LEDS), Spin 65000,
      Rd GPIOA_ODR (v OR LEDS), Spin 2000000, Rd EXTI_PR p, Wr EXTI_PR q] =
     [On, Pause 65000, Pause 2000000]"
proof -
  have "(v OR LEDS) AND GPIO_ODR_3 = GPIO_ODR_3"
    unfolding LEDS_def by (rule bit_eqI) (auto simp: bit_simps)
  moreover have "GPIO_ODR_3 \<noteq> 0" by (simp add: GPIO_ODR_3_def)
  ultimately show ?thesis
    by (simp add: led_view_def map_filter_simps)
qed

text \<open>
  C6. Scenario A, in the configuration with \<open>__BUTTON_INTERRUPT\<close> and \<open>__SLEEP_MODE\<close> alone
  (the model does not say what the deeper modes do to a wake-up, so the statement keeps to
  the mode of the scenario). Start anywhere with output bit 0 low, as it is after reset,
  and let the program sleep after any history \<open>ws\<close>. When an edge on PA0 then latches \<open>PR0\<close>,
  \<open>EXTI0_1_IRQHandler\<close> returns, and what it has done is, in order: switch the indicator on
  PA3 on, hold it through both busy-waits, clear \<open>PR0\<close> by writing it back. The indicator is
  still on and \<open>PR0\<close> is clear when it returns; the loop then goes round and the core is
  asleep in \<open>__WFI()\<close> again.
\<close>

theorem button1_turns_indicator_on_then_acknowledges:
  assumes "BUTTON_INTERRUPT cfg" and "SLEEP_MODE cfg"
    and "\<not> STOP_MODE cfg" and "\<not> STANDBY_MODE cfg"
    and "regs s0 GPIOA_ODR AND GPIO_IDR_0 = 0"
    and "main cfg ws s0 = Some s"
    and "f AND EXTI_PR_PR0 \<noteq> 0"
  shows "\<exists>s1. EXTI0_1_IRQHandler (latch EXTI0_1_IRQn f s) = Some s1 \<and>
           new_events s s1 =
             [Rd EXTI_PR (regs s EXTI_PR OR f),
              Rd GPIOA_ODR (regs s GPIOA_ODR), Wr GPIOA_ODR (regs s GPIOA_ODR OR LEDS),
              Spin 65000,
              Rd GPIOA_ODR (regs s GPIOA_ODR OR LEDS),
              Spin 2000000,
              Rd EXTI_PR (regs s EXTI_PR OR f),
              Wr EXTI_PR ((regs s EXTI_PR OR f) OR EXTI_PR_PR0)] \<and>
           led_view GPIO_ODR_3 (new_events s s1) = [On, Pause 65000, Pause 2000000] \<and>
           regs s1 GPIOA_ODR AND GPIO_ODR_3 = GPIO_ODR_3 \<and>
           regs s1 EXTI_PR AND EXTI_PR_PR0 = 0 \<and>
           main cfg (ws @ [(EXTI0_1_IRQn, f)]) s0 = Some (sleep_cycle s1) \<and>
           last (trace (sleep_cycle s1)) = WFI"
proof -
  from assms(5,6) have odr: "regs s GPIOA_ODR AND GPIO_IDR_0 = 0"
    by (simp add: main_ODR_bit0)
  from EXTI0_1_after_latch[OF odr assms(7)] obtain s1 where
    ret: "EXTI0_1_IRQHandler (latch EXTI0_1_IRQn f s) = Some s1"
    and regs: "regs s1 = (regs s)(GPIOA_ODR := regs s GPIOA_ODR OR LEDS, EXTI_PR := 0)"
    and tr: "trace s1 = trace s @
             [Rd EXTI_PR (regs s EXTI_PR OR f),
              Rd GPIOA_ODR (regs s GPIOA_ODR), Wr GPIOA_ODR (regs s GPIOA_ODR OR LEDS),
              Spin 65000,
              Rd GPIOA_ODR (regs s GPIOA_ODR OR LEDS),
              Spin 2000000,
              Rd EXTI_PR (regs s EXTI_PR OR f),
              Wr EXTI_PR ((regs s EXTI_PR OR f) OR EXTI_PR_PR0)]"
    by blast
  note ev = new_events_append[OF tr]
  have led: "led_view GPIO_ODR_3 (new_events s s1) = [On, Pause 65000, Pause 2000000]"
    by (simp only: ev led_view_button1)
  have on: "regs s1 GPIOA_ODR AND GPIO_ODR_3 = GPIO_ODR_3"
    unfolding regs LEDS_def by (rule bit_eqI) (auto simp: bit_simps)
  have ack: "regs s1 EXTI_PR AND EXTI_PR_PR0 = 0"
    by (simp add: regs)
  from assms(1) ret have "dispatch cfg EXTI0_1_IRQn (latch EXTI0_1_IRQn f s) = Some s1"
    by simp
  with assms(6) have run: "main cfg (ws @ [(EXTI0_1_IRQn, f)]) s0 = Some (sleep_cycle s1)"
    by (rule main_snoc)
  have asleep: "last (trace (sleep_cycle s1)) = WFI"
    by (simp add: trace_sleep_cycle)
  from ret ev led on ack run asleep show ?thesis by blast
qed

theorem button1_turns_indicator_on_then_acknowledges_witness:
  "BUTTON_INTERRUPT button_sleep_config \<and> SLEEP_MODE button_sleep_config \<and>
   \<not> STOP_MODE button_sleep_config \<and> \<not> STANDBY_MODE button_sleep_config \<and>
   regs zero_mcu GPIOA_ODR AND GPIO_IDR_0 = 0 \<and>
   main button_sleep_config [] zero_mcu = Some (sleep_cycle (main_init button_sleep_config zero_mcu)) \<and>
   EXTI_PR_PR0 AND EXTI_PR_PR0 \<noteq> 0 \<and>
   (\<exists>s1. EXTI0_1_IRQHandler
            (latch EXTI0_1_IRQn EXTI_PR_PR0 (sleep_cycle (main_init button_sleep_config zero_mcu)))
            = Some s1 \<and>
         led_view GPIO_ODR_3
           (new_events (sleep_cycle (main_init button_sleep_config zero_mcu)) s1)
           = [On, Pause 65000, Pause 2000000] \<and>
         regs s1 GPIOA_ODR AND GPIO_ODR_3 = GPIO_ODR_3 \<and>
         regs s1 EXTI_PR AND EXTI_PR_PR0 = 0 \<and>
         main button_sleep_config [(EXTI0_1_IRQn, EXTI_PR_PR0)] zero_mcu = Some (sleep_cycle s1) \<and>
         last (trace (sleep_cycle s1)) = WFI)"
proof -
  have c: "BUTTON_INTERRUPT button_sleep_config" "SLEEP_MODE button_sleep_config"
    "\<not> STOP_MODE button_sleep_config" "\<not> STANDBY_MODE button_sleep_config"
    by (simp_all add: button_sleep_config_def)
  have z: "regs zero_mcu GPIOA_ODR AND GPIO_IDR_0 = 0"
    by (simp add: zero_mcu_def)
  have m: "main button_sleep_config [] zero_mcu =
             Some (sleep_cycle (main_init button_sleep_config zero_mcu))"
    by (simp add: main_def)
  have f: "EXTI_PR_PR0 AND EXTI_PR_PR0 \<noteq> 0"
    by (simp add: EXTI_PR_PR0_def)
  from button1_turns_indicator_on_then_acknowledges[OF c z m f] c z m f
  show ?thesis by auto
qed

section \<open>Claims about the release-wait\<close>




section \<open>Claims about the button handlers\<close>














end
